theory Spec2Isabelle
  imports Main "HOL-Library.Word"
begin

section \<open>Data model\<close>

text \<open>
  The controller is the C++ class \<open>ElectricWaterHeater\<close> of
  \<open>src/build/src/ElectricWaterHeater.cpp\<close>. Its numeric members and the values of the
  property accessors are \<open>unsigned int\<close> in every place the source file shows a type
  (\<open>sec\<close>, \<open>min\<close>, \<open>utc\<close>, the result of \<open>GetRealImportPower\<close>), so they are
  32-bit words here: \<open>0 < x\<close> is the unsigned comparison.
\<close>

type_synonym u32 = "32 word"

text \<open>
  Modelled from the spec: the enumeration of device-reported operational states, whose
  declaration is in a header that is not part of the source tree. The source compares the
  device-reported state with the enumerators \<open>HEIGHTENED\<close>, \<open>GRID\<close> and
  \<open>CURTAILED\<close>; the spec also names \<open>NORMAL\<close>. Enumerators are pairwise
  different; every other code the device can report is \<open>OtherState n\<close>.
\<close>

datatype OpState = NORMAL | CURTAILED | HEIGHTENED | GRID | OtherState nat

text \<open>
  Modelled from the spec: the commodity reading
  \<open>{code, rate, cumulative}\<close> (the struct \<open>CommodityData\<close> is declared in an absent
  header).
\<close>

record CommodityData =
  code :: u32
  rate :: u32
  cumulative :: u32

text \<open>
  Modelled from the spec: the Property Store, that is the members of the absent base
  class \<open>DistributedEnergyResource\<close> behind the accessors the source calls. The field
  \<open>import_watts\<close> is what \<open>GetImportWatts\<close> reads (the spec's
  \<open>import_setpoint_watts\<close>: the side tested \<open>> 0\<close> in the first arbitration branch),
  \<open>import_power\<close> is what \<open>GetImportPower\<close> reads and \<open>SetImportPower\<close> writes
  (the spec's \<open>import_commanded_watts\<close>).
\<close>

record PowerState =
  export_watts :: u32
  export_power :: u32
  export_energy :: u32
  import_watts :: u32
  import_power :: u32
  import_energy :: u32
  rated_import_power :: u32
  rated_import_energy :: u32
  import_ramp :: u32
  idle_losses :: u32

text \<open>
  The operations of the device command port (\<open>device_ptr_\<close>) that the source calls.
  The argument of the five DR commands is the duration in seconds.
\<close>

datatype OutsideCommuncatonStatusCode = Found

datatype command =
    Start
  | BasicOutsideCommConnectionStatus OutsideCommuncatonStatusCode
  | QuerySuportDataLinkMessages
  | QueryMaxPayload
  | QuerySuportIntermediateMessages
  | IntermediateGetDeviceInformation
  | IntermediateGetCommodity
  | BasicQueryOperationalState
  | BasicCriticalPeakEvent nat
  | BasicLoadUp nat
  | BasicGridEmergency nat
  | BasicEndShed nat
  | BasicShed nat

type_synonym ResponseCodes = nat

text \<open>
  The log sink: a \<open>Logger (level, path) << text\<close> line, or the telemetry record of
  \<open>Log\<close>: the eight numeric fields in the order they are streamed, then the
  device-reported operational state.
\<close>

datatype log_line =
    Message string string string
  | DER_Data string "u32 list" OpState

text \<open>
  The controller instance. \<open>der\<close> is the Property Store; \<open>log_path\<close> and
  \<open>log_inc\<close> are the base class's logging settings; \<open>sp\<close> to
  \<open>response_codes\<close> are the members of \<open>ElectricWaterHeater\<close>, which the source
  writes with a trailing underscore (\<open>opstate_\<close>, \<open>log_minute_\<close>, ...): a name
  cannot end with one here. The last three fields are the effects
  of the calls, in order: the commands sent to the device, the lines written to the log
  sink, and the lines printed on the console.
\<close>

record EWH =
  der :: PowerState
  log_path :: string
  log_inc :: u32
  sp :: string
  current_transducer_1 :: u32
  heartbeat :: u32
  opstate :: u32
  log_minute :: u32
  last_utc :: u32
  response_codes :: ResponseCodes
  commands :: "command list"
  logs :: "log_line list"
  console :: "string list"

text \<open>
  Everything a call reads from outside the controller: whether the serial port opens,
  the reply of each awaited query (\<open>None\<close>: the query never completes, so \<open>get ()\<close>
  never returns), the state and the commodity readings the communication module holds,
  the current transducer's reading, and the wall clock (\<open>tm_sec\<close>, \<open>tm_min\<close> of
  \<open>localtime\<close>, and \<open>time (0)\<close>).
\<close>

record environment =
  sp_open :: bool
  query_reply :: "command \<Rightarrow> ResponseCodes option"
  GetOpState :: OpState
  GetCommodityData :: "CommodityData list"
  GetCurrent :: u32
  tm_sec :: u32
  tm_min :: u32
  time_now :: u32

datatype error =
    Exit nat
  | Invalid_argument
  | Out_of_range
  | Never_completes
  | Division_by_zero

section \<open>Accessors and effects\<close>

text \<open>
  Modelled from the spec: the Property Store's accessors (members of the absent base
  class \<open>DistributedEnergyResource\<close>). The spec gives a get and a set for each field,
  with no effect beyond the store itself.
\<close>

definition GetExportWatts :: "EWH \<Rightarrow> u32" where
  "GetExportWatts s = export_watts (der s)"

definition GetExportPower :: "EWH \<Rightarrow> u32" where
  "GetExportPower s = export_power (der s)"

definition GetExportEnergy :: "EWH \<Rightarrow> u32" where
  "GetExportEnergy s = export_energy (der s)"

definition GetImportWatts :: "EWH \<Rightarrow> u32" where
  "GetImportWatts s = import_watts (der s)"

definition GetImportPower :: "EWH \<Rightarrow> u32" where
  "GetImportPower s = import_power (der s)"

definition GetImportEnergy :: "EWH \<Rightarrow> u32" where
  "GetImportEnergy s = import_energy (der s)"

definition GetRatedImportEnergy :: "EWH \<Rightarrow> u32" where
  "GetRatedImportEnergy s = rated_import_energy (der s)"

definition GetLogPath :: "EWH \<Rightarrow> string" where
  "GetLogPath s = log_path s"

definition SetImportPower :: "u32 \<Rightarrow> EWH \<Rightarrow> EWH" where
  "SetImportPower v s = s\<lparr>der := (der s)\<lparr>import_power := v\<rparr>\<rparr>"

definition SetRatedImportEnergy :: "u32 \<Rightarrow> EWH \<Rightarrow> EWH" where
  "SetRatedImportEnergy v s = s\<lparr>der := (der s)\<lparr>rated_import_energy := v\<rparr>\<rparr>"

definition SetImportEnergy :: "u32 \<Rightarrow> EWH \<Rightarrow> EWH" where
  "SetImportEnergy v s = s\<lparr>der := (der s)\<lparr>import_energy := v\<rparr>\<rparr>"

definition SetRatedImportPower :: "u32 \<Rightarrow> EWH \<Rightarrow> EWH" where
  "SetRatedImportPower v s = s\<lparr>der := (der s)\<lparr>rated_import_power := v\<rparr>\<rparr>"

definition SetExportEnergy :: "u32 \<Rightarrow> EWH \<Rightarrow> EWH" where
  "SetExportEnergy v s = s\<lparr>der := (der s)\<lparr>export_energy := v\<rparr>\<rparr>"

definition SetImportRamp :: "u32 \<Rightarrow> EWH \<Rightarrow> EWH" where
  "SetImportRamp v s = s\<lparr>der := (der s)\<lparr>import_ramp := v\<rparr>\<rparr>"

definition SetIdleLosses :: "u32 \<Rightarrow> EWH \<Rightarrow> EWH" where
  "SetIdleLosses v s = s\<lparr>der := (der s)\<lparr>idle_losses := v\<rparr>\<rparr>"

definition SetLogPath :: "string \<Rightarrow> EWH \<Rightarrow> EWH" where
  "SetLogPath p s = s\<lparr>log_path := p\<rparr>"

definition SetLogIncrement :: "u32 \<Rightarrow> EWH \<Rightarrow> EWH" where
  "SetLogIncrement v s = s\<lparr>log_inc := v\<rparr>"

text \<open>A call on \<open>device_ptr_\<close> sends one command; the source never waits for it
  outside the constructor.\<close>

definition issue :: "command \<Rightarrow> EWH \<Rightarrow> EWH" where
  "issue c s = s\<lparr>commands := commands s @ [c]\<rparr>"

definition Logger :: "string \<Rightarrow> string \<Rightarrow> string \<Rightarrow> EWH \<Rightarrow> EWH" where
  "Logger level path msg s = s\<lparr>logs := logs s @ [Message level path msg]\<rparr>"

definition cout :: "string \<Rightarrow> EWH \<Rightarrow> EWH" where
  "cout line s = s\<lparr>console := console s @ [line]\<rparr>"

section \<open>DR event handlers\<close>

definition SetCriticalPeak :: "EWH \<Rightarrow> EWH" where
  "SetCriticalPeak s0 =
     (let s1 = issue (BasicCriticalPeakEvent 0) s0;
          s2 = s1\<lparr>opstate := 4\<rparr>
      in Logger ''INFO'' (GetLogPath s2) ''Critical peak event command received'' s2)"

definition SetLoadUp :: "EWH \<Rightarrow> EWH" where
  "SetLoadUp s0 =
     (let s1 = s0\<lparr>opstate := 3\<rparr>;
          s2 = issue (BasicLoadUp 0) s1
      in Logger ''INFO'' (GetLogPath s2) ''Load up command received'' s2)"

definition SetGridEmergency :: "EWH \<Rightarrow> EWH" where
  "SetGridEmergency s0 =
     (let s1 = s0\<lparr>opstate := 5\<rparr>;
          s2 = issue (BasicGridEmergency 0) s1
      in Logger ''INFO'' (GetLogPath s2) ''Grid Emergency command received'' s2)"

definition EndCurtailment :: "EWH \<Rightarrow> EWH" where
  "EndCurtailment s0 =
     (let s1 = issue (BasicEndShed 0) s0
      in cout ''Debugging: Ending previous curtailment for new command.'' s1)"

section \<open>DER overwrites\<close>

definition ImportPower :: "EWH \<Rightarrow> EWH" where
  "ImportPower s = issue (BasicLoadUp 0) s"

definition ExportPower :: "EWH \<Rightarrow> EWH" where
  "ExportPower s = SetExportEnergy 0 s"

definition IdleLoss :: "EWH \<Rightarrow> EWH" where
  "IdleLoss s = issue (BasicShed 0) s"

text \<open>\<open>GetRealImportPower\<close>: the transducer's reading times 240, as an
  \<open>unsigned int\<close>.\<close>

definition GetRealImportPower :: "environment \<Rightarrow> u32" where
  "GetRealImportPower env = GetCurrent env * 240"

section \<open>Property refresh\<close>

text \<open>The body of the range-based \<open>for\<close> of \<open>QueryProperties\<close>, for one reading.\<close>

definition fold_commodity :: "CommodityData \<Rightarrow> EWH \<Rightarrow> EWH" where
  "fold_commodity commodity s =
     (if code commodity = 0 then SetImportPower (rate commodity) s
      else if code commodity = 6 then SetRatedImportEnergy (cumulative commodity) s
      else if code commodity = 7 then SetImportEnergy (cumulative commodity) s
      else s)"

fun for_commodities :: "CommodityData list \<Rightarrow> EWH \<Rightarrow> EWH" where
  "for_commodities [] s = s"
| "for_commodities (commodity # commodities) s =
     for_commodities commodities (fold_commodity commodity s)"

definition QueryProperties :: "environment \<Rightarrow> EWH \<Rightarrow> EWH" where
  "QueryProperties env s0 =
     (let s1 = issue IntermediateGetCommodity s0;
          commodities = GetCommodityData env;
          s2 = for_commodities commodities s1
      in issue BasicQueryOperationalState s2)"

section \<open>The reconciliation loop\<close>

definition Log :: "environment \<Rightarrow> EWH \<Rightarrow> EWH" where
  "Log env s0 =
     (let utc = time_now env;
          s1 = s0\<lparr>logs := logs s0 @
                 [DER_Data (GetLogPath s0)
                    [GetExportWatts s0, GetExportPower s0, GetExportEnergy s0,
                     GetImportWatts s0, GetImportPower s0, GetImportEnergy s0,
                     GetRatedImportEnergy s0, GetRealImportPower env]
                    (GetOpState env)]\<rparr>
      in s1\<lparr>last_utc := utc\<rparr>)"

text \<open>
  \<open>Loop\<close>, lines 138 to 156: the clock is sampled, then the refresh on even seconds,
  the heartbeat and the log. \<open>min % heartbeat_\<close> is the left operand of its
  \<open>&&\<close> and is evaluated on every tick: with \<open>heartbeat_ = 0\<close> the tick does not
  complete (integer division by zero). The parameter \<open>time_past\<close> is never read.
\<close>

definition Loop_schedule :: "environment \<Rightarrow> EWH \<Rightarrow> error + EWH" where
  "Loop_schedule env s0 =
     (let sec = tm_sec env;
          min = tm_min env;
          s1 = (if sec mod 2 = 0 then QueryProperties env s0 else s0)
      in if heartbeat s1 = 0 then Inl Division_by_zero
         else
           let s2 = (if min mod heartbeat s1 = 0 \<and> sec < 1
                     then issue (BasicOutsideCommConnectionStatus Found) s1 else s1);
               s3 = (if sec = 0 \<and> log_minute s2 \<noteq> min
                     then (Log env s2)\<lparr>log_minute := min\<rparr> else s2)
           in Inr s3)"

text \<open>
  \<open>Loop\<close>, lines 158 to 168: the power arbitration. The calls of
  \<open>ucm_.GetOpState ()\<close> within one tick read the same device-reported state, the
  one of \<open>env\<close>.
\<close>

definition Loop_arbitration :: "environment \<Rightarrow> EWH \<Rightarrow> EWH" where
  "Loop_arbitration env s =
     (if 0 < GetImportWatts s \<and> GetImportPower s = 0 then
        (if GetOpState env \<noteq> HEIGHTENED then ImportPower s else s)
      else if 0 < GetImportPower s \<and> GetImportWatts s = 0 then
        (if GetOpState env \<noteq> GRID \<or> GetOpState env \<noteq> CURTAILED then IdleLoss s else s)
      else s)"

definition Loop :: "environment \<Rightarrow> EWH \<Rightarrow> error + EWH" where
  "Loop env s0 =
     (case Loop_schedule env s0 of
        Inl e \<Rightarrow> Inl e
      | Inr s3 \<Rightarrow> Inr (Loop_arbitration env s3))"

section \<open>Construction\<close>

text \<open>
  \<open>std::stoul\<close> in base 10: leading white space is skipped, one sign is accepted,
  the longest run of decimal digits is read and what follows it is ignored. No digit
  at all throws \<open>invalid_argument\<close>, a value above \<open>ULONG_MAX\<close> throws
  \<open>out_of_range\<close>, and a minus sign negates the value in \<open>unsigned long\<close>, which is
  taken to be 64 bits wide.
\<close>

definition isspace :: "char \<Rightarrow> bool" where
  "isspace c = (of_char c \<in> {32, 9, 10, 11, 12, 13 :: nat})"

definition isdigit :: "char \<Rightarrow> bool" where
  "isdigit c = (48 \<le> (of_char c :: nat) \<and> (of_char c :: nat) \<le> 57)"

definition ULONG_MAX :: nat where
  "ULONG_MAX = 2 ^ 64 - 1"

definition stoul :: "string \<Rightarrow> error + nat" where
  "stoul str =
     (let s1 = dropWhile isspace str;
          negative = (s1 \<noteq> [] \<and> hd s1 = CHR ''-'');
          s2 = (if s1 \<noteq> [] \<and> (hd s1 = CHR ''-'' \<or> hd s1 = CHR ''+'') then tl s1 else s1);
          digits = takeWhile isdigit s2;
          v = foldl (\<lambda>a d. 10 * a + (of_char d - 48)) 0 digits
      in if digits = [] then Inl Invalid_argument
         else if ULONG_MAX < v then Inl Out_of_range
         else Inr (if negative then (2 ^ 64 - v) mod 2 ^ 64 else v))"

text \<open>\<open>configs["key"]\<close> on a \<open>std::map\<close> of strings: a missing key reads as the
  empty string.\<close>

definition at :: "(string \<rightharpoonup> string) \<Rightarrow> string \<Rightarrow> string" where
  "at configs key = (case configs key of None \<Rightarrow> [] | Some v \<Rightarrow> v)"

text \<open>Sequencing of steps that can fail: the first failure ends the call.\<close>

definition and_then :: "error + 'a \<Rightarrow> ('a \<Rightarrow> error + 'b) \<Rightarrow> error + 'b" where
  "and_then m f = (case m of Inl e \<Rightarrow> Inl e | Inr v \<Rightarrow> f v)"

text \<open>\<open>response_codes_ = device_ptr_->query ().get ()\<close>: the query is sent and its
  completion is awaited.\<close>

definition await :: "environment \<Rightarrow> command \<Rightarrow> EWH \<Rightarrow> error + EWH" where
  "await env query s =
     (case query_reply env query of
        None \<Rightarrow> Inl Never_completes
      | Some r \<Rightarrow> Inr ((issue query s)\<lparr>response_codes := r\<rparr>))"

text \<open>
  The constructor. \<open>s0\<close> holds the members as they are before the constructor's body
  runs (the source initialises neither \<open>opstate_\<close> nor \<open>log_minute_\<close>, and the base
  class's constructor is absent). The member initialisers run first, in the order the
  source lists them; \<open>exit (1)\<close> ends the process, and the error line logged before
  it is not kept.
\<close>

definition ElectricWaterHeater :: "(string \<rightharpoonup> string) \<Rightarrow> environment \<Rightarrow> EWH \<Rightarrow> error + EWH" where
  "ElectricWaterHeater configs env s0 =
     and_then (stoul (at configs ''mcp_channel'')) (\<lambda>channel.
     and_then (stoul (at configs ''ucm_heartbeat'')) (\<lambda>beat.
       let s1 = s0\<lparr>sp := at configs ''serial_port'',
                    current_transducer_1 := of_nat channel,
                    heartbeat := of_nat beat\<rparr>
       in if \<not> sp_open env then Inl (Exit 1)
          else
            let s2 = issue Start s1;
                s3 = issue (BasicOutsideCommConnectionStatus Found) s2
            in
     and_then (await env QuerySuportDataLinkMessages s3) (\<lambda>s4.
     and_then (await env QueryMaxPayload s4) (\<lambda>s5.
     and_then (await env QuerySuportIntermediateMessages s5) (\<lambda>s6.
     and_then (await env IntermediateGetDeviceInformation s6) (\<lambda>s7.
       let s8 = SetLogPath (at configs ''log_path'') s7;
           s9 = cout (''Log Path: '' @ GetLogPath s8) s8
       in
     and_then (stoul (at configs ''log_inc'')) (\<lambda>inc.
       let s10 = SetLogIncrement (of_nat inc) s9;
           s11 = Logger ''INFO'' (GetLogPath s10) ''startup complete'' s10;
           s12 = SetRatedImportPower 4500 s11;
           s13 = SetExportEnergy 0 s12
       in
     and_then (stoul (at configs ''EWH_rated_import_ramp'')) (\<lambda>ramp.
       let s14 = SetImportRamp (of_nat ramp) s13;
           s15 = SetIdleLosses 100 s14
       in Inr (QueryProperties env s15)))))))))"

section \<open>Runs and observations\<close>

text \<open>The calls the DR manager and the scheduler can make on a constructed controller,
  and a sequence of them; a tick that does not complete ends the run.\<close>

datatype call =
    Call_SetCriticalPeak
  | Call_SetLoadUp
  | Call_SetGridEmergency
  | Call_EndCurtailment
  | Call_QueryProperties environment
  | Call_ImportPower
  | Call_ExportPower
  | Call_IdleLoss
  | Call_Log environment
  | Call_Loop environment

fun do_call :: "call \<Rightarrow> EWH \<Rightarrow> error + EWH" where
  "do_call Call_SetCriticalPeak s = Inr (SetCriticalPeak s)"
| "do_call Call_SetLoadUp s = Inr (SetLoadUp s)"
| "do_call Call_SetGridEmergency s = Inr (SetGridEmergency s)"
| "do_call Call_EndCurtailment s = Inr (EndCurtailment s)"
| "do_call (Call_QueryProperties env) s = Inr (QueryProperties env s)"
| "do_call Call_ImportPower s = Inr (ImportPower s)"
| "do_call Call_ExportPower s = Inr (ExportPower s)"
| "do_call Call_IdleLoss s = Inr (IdleLoss s)"
| "do_call (Call_Log env) s = Inr (Log env s)"
| "do_call (Call_Loop env) s = Loop env s"

fun run :: "call list \<Rightarrow> EWH \<Rightarrow> error + EWH" where
  "run [] s = Inr s"
| "run (c # cs) s = and_then (do_call c s) (run cs)"

text \<open>The commands sent between a state and a later one, and the two corrective
  commands of the arbitration.\<close>

definition issued :: "EWH \<Rightarrow> EWH \<Rightarrow> command list" where
  "issued s s' = drop (length (commands s)) (commands s')"

definition corrective :: "command \<Rightarrow> bool" where
  "corrective c = (c = BasicLoadUp 0 \<or> c = BasicShed 0)"

text \<open>The telemetry records in the log sink.\<close>

fun is_DER_Data :: "log_line \<Rightarrow> bool" where
  "is_DER_Data (DER_Data path numbers state) = True"
| "is_DER_Data (Message level path msg) = False"

definition telemetry :: "EWH \<Rightarrow> log_line list" where
  "telemetry s = filter is_DER_Data (logs s)"

text \<open>The last reading of a sequence that carries a given code, if any.\<close>

definition last_reading :: "u32 \<Rightarrow> CommodityData list \<Rightarrow> CommodityData option" where
  "last_reading k cs = find (\<lambda>c. code c = k) (rev cs)"

subsection \<open>Concrete inputs\<close>

definition store0 :: PowerState where
  "store0 = \<lparr>export_watts = 0, export_power = 0, export_energy = 9, import_watts = 0,
      import_power = 0, import_energy = 0, rated_import_power = 0, rated_import_energy = 0,
      import_ramp = 0, idle_losses = 0\<rparr>"

definition ewh0 :: EWH where
  "ewh0 = \<lparr>der = store0, log_path = ''/tmp/'', log_inc = 1, sp = ''/dev/ttyUSB0'',
      current_transducer_1 = 0, heartbeat = 1, opstate = 0, log_minute = 7, last_utc = 0,
      response_codes = 0, commands = [], logs = [], console = []\<rparr>"

definition env0 :: environment where
  "env0 = \<lparr>sp_open = True, query_reply = (\<lambda>q. Some 0), GetOpState = NORMAL,
      GetCommodityData = [], GetCurrent = 2, tm_sec = 1, tm_min = 30, time_now = 1000\<rparr>"

definition entries0 :: "(string \<times> string) list" where
  "entries0 =
     [(''serial_port'', ''/dev/ttyUSB0''), (''mcp_channel'', ''0''),
      (''ucm_heartbeat'', ''1''), (''log_path'', ''/tmp/''), (''log_inc'', ''1''),
      (''EWH_rated_import_ramp'', ''7'')]"

definition configs0 :: "string \<rightharpoonup> string" where
  "configs0 = map_of entries0"

definition entries1 :: "(string \<times> string) list" where
  "entries1 =
     [(''serial_port'', ''/dev/ttyS1''), (''mcp_channel'', ''3''),
      (''ucm_heartbeat'', ''2''), (''log_path'', ''/var/log/''), (''log_inc'', ''5''),
      (''EWH_rated_import_ramp'', ''9'')]"

definition configs1 :: "string \<rightharpoonup> string" where
  "configs1 = map_of entries1"

text \<open>A controller whose device draws 500 W with no import wanted, one where 500 W are
  wanted and none is drawn, and one where both are 500 W.\<close>

definition ewh_drawing :: EWH where
  "ewh_drawing = ewh0\<lparr>der := store0\<lparr>import_power := 500\<rparr>\<rparr>"

definition ewh_wanting :: EWH where
  "ewh_wanting = ewh0\<lparr>der := store0\<lparr>import_watts := 500\<rparr>\<rparr>"

definition ewh_agreeing :: EWH where
  "ewh_agreeing = ewh0\<lparr>der := store0\<lparr>import_watts := 500, import_power := 500\<rparr>\<rparr>"

text \<open>The environment \<open>env0\<close> with another device-reported state, at another second of
  minute 30, and with one reading of code 0 and rate 500.\<close>

definition env_reporting :: "OpState \<Rightarrow> environment" where
  "env_reporting st = env0\<lparr>GetOpState := st\<rparr>"

definition env_at :: "u32 \<Rightarrow> environment" where
  "env_at sec = env0\<lparr>tm_sec := sec\<rparr>"

definition env_rate :: environment where
  "env_rate = env0\<lparr>GetCommodityData := [\<lparr>code = 0, rate = 500, cumulative = 0\<rparr>]\<rparr>"

text \<open>What a run leaves in a member, when it completes.\<close>

definition observe :: "(EWH \<Rightarrow> 'a) \<Rightarrow> error + EWH \<Rightarrow> error + 'a" where
  "observe f r = map_sum id f r"

text \<open>The three static DER properties: rated import power, idle losses, import ramp.\<close>

definition static_properties :: "EWH \<Rightarrow> u32 \<times> u32 \<times> u32" where
  "static_properties s =
     (rated_import_power (der s), idle_losses (der s), import_ramp (der s))"

text \<open>The three DR event handlers that write the local operational state.\<close>

fun writes_opstate :: "call \<Rightarrow> bool" where
  "writes_opstate Call_SetCriticalPeak = True"
| "writes_opstate Call_SetLoadUp = True"
| "writes_opstate Call_SetGridEmergency = True"
| "writes_opstate c = False"

section \<open>Properties\<close>

subsection \<open>Property refresh\<close>

lemmas setters = SetImportPower_def SetRatedImportEnergy_def SetImportEnergy_def
  SetRatedImportPower_def SetExportEnergy_def SetImportRamp_def SetIdleLosses_def

lemmas getters = GetExportWatts_def GetExportPower_def GetExportEnergy_def GetImportWatts_def
  GetImportPower_def GetImportEnergy_def GetRatedImportEnergy_def GetLogPath_def

lemma for_commodities_snoc:
  "for_commodities (cs @ [c]) s = fold_commodity c (for_commodities cs s)"
  by (induction cs arbitrary: s) simp_all

lemma import_power_for_commodities:
  "import_power (der (for_commodities cs s)) =
     (case last_reading 0 cs of None \<Rightarrow> import_power (der s) | Some c \<Rightarrow> rate c)"
  by (induction cs rule: rev_induct)
     (simp_all add: last_reading_def for_commodities_snoc fold_commodity_def setters)

lemma rated_import_energy_for_commodities:
  "rated_import_energy (der (for_commodities cs s)) =
     (case last_reading 6 cs of None \<Rightarrow> rated_import_energy (der s)
      | Some c \<Rightarrow> cumulative c)"
  by (induction cs rule: rev_induct)
     (simp_all add: last_reading_def for_commodities_snoc fold_commodity_def setters)

lemma import_energy_for_commodities:
  "import_energy (der (for_commodities cs s)) =
     (case last_reading 7 cs of None \<Rightarrow> import_energy (der s) | Some c \<Rightarrow> cumulative c)"
  by (induction cs rule: rev_induct)
     (simp_all add: last_reading_def for_commodities_snoc fold_commodity_def setters)

lemma for_commodities_untouched:
  "export_watts (der (for_commodities cs s)) = export_watts (der s)"
  "export_power (der (for_commodities cs s)) = export_power (der s)"
  "export_energy (der (for_commodities cs s)) = export_energy (der s)"
  "import_watts (der (for_commodities cs s)) = import_watts (der s)"
  "rated_import_power (der (for_commodities cs s)) = rated_import_power (der s)"
  "import_ramp (der (for_commodities cs s)) = import_ramp (der s)"
  "idle_losses (der (for_commodities cs s)) = idle_losses (der s)"
  "PowerState.more (der (for_commodities cs s)) = PowerState.more (der s)"
  by (induction cs arbitrary: s; simp add: fold_commodity_def setters)+

lemma for_commodities_members:
  "log_path (for_commodities cs s) = log_path s"
  "log_inc (for_commodities cs s) = log_inc s"
  "sp (for_commodities cs s) = sp s"
  "current_transducer_1 (for_commodities cs s) = current_transducer_1 s"
  "heartbeat (for_commodities cs s) = heartbeat s"
  "opstate (for_commodities cs s) = opstate s"
  "log_minute (for_commodities cs s) = log_minute s"
  "last_utc (for_commodities cs s) = last_utc s"
  "response_codes (for_commodities cs s) = response_codes s"
  "commands (for_commodities cs s) = commands s"
  "logs (for_commodities cs s) = logs s"
  "console (for_commodities cs s) = console s"
  by (induction cs arbitrary: s; simp add: fold_commodity_def setters)+

lemmas for_commodities_fields = import_power_for_commodities
  rated_import_energy_for_commodities import_energy_for_commodities
  for_commodities_untouched for_commodities_members

text \<open>
  C5. Property refresh is idempotent on the Property Store: for every starting state
  and every fixed commodity-reading sequence (the same \<open>env\<close> in both calls), a second
  \<open>QueryProperties\<close> leaves the store as the first one left it.
\<close>

theorem QueryProperties_idempotent:
  "der (QueryProperties env (QueryProperties env s)) = der (QueryProperties env s)"
  by (rule PowerState.equality)
     (simp_all add: QueryProperties_def Let_def issue_def for_commodities_fields
        split: option.splits)

subsection \<open>The reconciliation loop\<close>

lemma QueryProperties_members:
  "log_path (QueryProperties env s) = log_path s"
  "log_inc (QueryProperties env s) = log_inc s"
  "sp (QueryProperties env s) = sp s"
  "current_transducer_1 (QueryProperties env s) = current_transducer_1 s"
  "heartbeat (QueryProperties env s) = heartbeat s"
  "opstate (QueryProperties env s) = opstate s"
  "log_minute (QueryProperties env s) = log_minute s"
  "last_utc (QueryProperties env s) = last_utc s"
  "response_codes (QueryProperties env s) = response_codes s"
  "commands (QueryProperties env s) =
     commands s @ [IntermediateGetCommodity, BasicQueryOperationalState]"
  "logs (QueryProperties env s) = logs s"
  "console (QueryProperties env s) = console s"
  by (simp_all add: QueryProperties_def Let_def issue_def for_commodities_members)

lemma QueryProperties_untouched:
  "export_watts (der (QueryProperties env s)) = export_watts (der s)"
  "export_power (der (QueryProperties env s)) = export_power (der s)"
  "export_energy (der (QueryProperties env s)) = export_energy (der s)"
  "import_watts (der (QueryProperties env s)) = import_watts (der s)"
  "rated_import_power (der (QueryProperties env s)) = rated_import_power (der s)"
  "import_ramp (der (QueryProperties env s)) = import_ramp (der s)"
  "idle_losses (der (QueryProperties env s)) = idle_losses (der s)"
  by (simp_all add: QueryProperties_def Let_def issue_def for_commodities_untouched)

lemma Loop_schedule_total:
  "heartbeat s \<noteq> 0 \<Longrightarrow> \<exists>s3. Loop_schedule env s = Inr s3"
  by (simp add: Loop_schedule_def Let_def QueryProperties_members)

lemma Loop_schedule_members:
  assumes "Loop_schedule env s = Inr s3"
  shows "heartbeat s \<noteq> 0" "heartbeat s3 = heartbeat s" "opstate s3 = opstate s"
    "export_energy (der s3) = export_energy (der s)"
    "import_watts (der s3) = import_watts (der s)"
  using assms
  by (auto simp add: Loop_schedule_def Let_def QueryProperties_members QueryProperties_untouched
       Log_def issue_def split: if_splits)

lemma Loop_schedule_commands:
  assumes "Loop_schedule env s = Inr s3"
  shows "\<exists>pre. commands s3 = commands s @ pre \<and> filter corrective pre = []"
  using assms
  by (auto simp add: Loop_schedule_def Let_def QueryProperties_members
       Log_def issue_def corrective_def split: if_splits)

lemma Loop_arbitration_members:
  "der (Loop_arbitration env s) = der s"
  "heartbeat (Loop_arbitration env s) = heartbeat s"
  "opstate (Loop_arbitration env s) = opstate s"
  "log_minute (Loop_arbitration env s) = log_minute s"
  "last_utc (Loop_arbitration env s) = last_utc s"
  "logs (Loop_arbitration env s) = logs s"
  "console (Loop_arbitration env s) = console s"
  by (simp_all add: Loop_arbitration_def ImportPower_def IdleLoss_def issue_def)

lemma Loop_arbitration_cases:
  "Loop_arbitration env s = s \<or> Loop_arbitration env s = ImportPower s
     \<or> Loop_arbitration env s = IdleLoss s"
  by (simp add: Loop_arbitration_def)

lemmas inputs = store0_def ewh0_def env0_def ewh_drawing_def ewh_wanting_def ewh_agreeing_def
  env_reporting_def env_at_def env_rate_def

lemmas tick = Loop_def Loop_schedule_def Loop_arbitration_def QueryProperties_def Log_def
  ImportPower_def IdleLoss_def issue_def fold_commodity_def Let_def

text \<open>
  C1. In the second arbitration branch (the device draws power, \<open>0 < GetImportPower\<close>,
  and none is wanted, \<open>GetImportWatts = 0\<close>) the guard
  \<open>state \<noteq> GRID \<or> state \<noteq> CURTAILED\<close> holds for every device-reported state, so the
  tick ends with \<open>IdleLoss\<close>: one shed command of duration 0, whatever the state.
  \<open>s3\<close> is the controller as the arbitration reads it, after the refresh, heartbeat
  and log of the same tick.
\<close>

theorem shed_guard_never_blocks:
  assumes "Loop_schedule env s0 = Inr s3"
    and "0 < GetImportPower s3" and "GetImportWatts s3 = 0"
  shows "(GetOpState env \<noteq> GRID \<or> GetOpState env \<noteq> CURTAILED)
     \<and> Loop_arbitration env s3 = IdleLoss s3
     \<and> Loop env s0 = Inr (IdleLoss s3)
     \<and> commands (IdleLoss s3) = commands s3 @ [BasicShed 0]"
  using assms by (auto simp add: Loop_def Loop_arbitration_def IdleLoss_def issue_def)

theorem shed_guard_never_blocks_witness:
  "Loop_schedule (env_reporting GRID) ewh_drawing = Inr ewh_drawing
   \<and> 0 < GetImportPower ewh_drawing \<and> GetImportWatts ewh_drawing = 0
   \<and> Loop (env_reporting GRID) ewh_drawing = Inr (IdleLoss ewh_drawing)
   \<and> Loop (env_reporting CURTAILED) ewh_drawing = Inr (IdleLoss ewh_drawing)
   \<and> commands (IdleLoss ewh_drawing) = [BasicShed 0]"
proof -
  have h1: "Loop_schedule (env_reporting GRID) ewh_drawing = Inr ewh_drawing"
    by (simp add: inputs tick)
  have h2: "Loop_schedule (env_reporting CURTAILED) ewh_drawing = Inr ewh_drawing"
    by (simp add: inputs tick)
  have h3: "0 < GetImportPower ewh_drawing" by (simp add: inputs getters)
  have h4: "GetImportWatts ewh_drawing = 0" by (simp add: inputs getters)
  have "commands ewh_drawing = []" by (simp add: inputs)
  then show ?thesis
    using h1 h3 h4 shed_guard_never_blocks [OF h1 h3 h4] shed_guard_never_blocks [OF h2 h3 h4] by simp
qed

text \<open>
  C3. On a tick where import is wanted (\<open>0 < GetImportWatts\<close>) and none is drawn
  (\<open>GetImportPower = 0\<close>), the load-up command of duration 0 is sent if and only if
  the device-reported state is not \<open>HEIGHTENED\<close>, and nothing else is sent by the
  arbitration. The witness runs it for \<open>NORMAL\<close> (sent) and \<open>HEIGHTENED\<close> (not sent).
\<close>

theorem resume_import_gating:
  assumes "Loop_schedule env s0 = Inr s3"
    and "0 < GetImportWatts s3" and "GetImportPower s3 = 0"
  shows "Loop env s0 = Inr (Loop_arbitration env s3)
     \<and> Loop_arbitration env s3 = (if GetOpState env \<noteq> HEIGHTENED then ImportPower s3 else s3)
     \<and> issued s3 (Loop_arbitration env s3) =
          (if GetOpState env \<noteq> HEIGHTENED then [BasicLoadUp 0] else [])
     \<and> (BasicLoadUp 0 \<in> set (issued s3 (Loop_arbitration env s3))
          \<longleftrightarrow> GetOpState env \<noteq> HEIGHTENED)"
  using assms by (auto simp add: Loop_def Loop_arbitration_def ImportPower_def issue_def issued_def)

theorem resume_import_gating_witness:
  "Loop_schedule (env_reporting NORMAL) ewh_wanting = Inr ewh_wanting
   \<and> Loop_schedule (env_reporting HEIGHTENED) ewh_wanting = Inr ewh_wanting
   \<and> 0 < GetImportWatts ewh_wanting \<and> GetImportPower ewh_wanting = 0
   \<and> Loop (env_reporting NORMAL) ewh_wanting = Inr (ImportPower ewh_wanting)
   \<and> issued ewh_wanting (ImportPower ewh_wanting) = [BasicLoadUp 0]
   \<and> Loop (env_reporting HEIGHTENED) ewh_wanting = Inr ewh_wanting"
proof -
  have h1: "Loop_schedule (env_reporting NORMAL) ewh_wanting = Inr ewh_wanting"
    by (simp add: inputs tick)
  have h2: "Loop_schedule (env_reporting HEIGHTENED) ewh_wanting = Inr ewh_wanting"
    by (simp add: inputs tick)
  have h3: "0 < GetImportWatts ewh_wanting" by (simp add: inputs getters)
  have h4: "GetImportPower ewh_wanting = 0" by (simp add: inputs getters)
  have n: "GetOpState (env_reporting NORMAL) \<noteq> HEIGHTENED"
    and h: "GetOpState (env_reporting HEIGHTENED) = HEIGHTENED"
    by (simp_all add: inputs)
  show ?thesis
    using h1 h2 h3 h4 n h resume_import_gating [OF h1 h3 h4] resume_import_gating [OF h2 h3 h4] by auto
qed

text \<open>
  C4. When the wanted and the drawn import power are both zero or both nonzero, the
  arbitration sends nothing and the tick ends in the state the arbitration found. On
  every tick the two corrective commands exclude each other: at most one load-up or shed
  command is sent in the whole tick.
\<close>

theorem arbitration_exclusive:
  assumes "Loop_schedule env s0 = Inr s3"
  shows "((GetImportWatts s3 = 0 \<and> GetImportPower s3 = 0)
            \<or> (GetImportWatts s3 \<noteq> 0 \<and> GetImportPower s3 \<noteq> 0)
          \<longrightarrow> Loop env s0 = Inr s3 \<and> issued s3 (Loop_arbitration env s3) = [])
     \<and> (\<exists>s'. Loop env s0 = Inr s' \<and> length (filter corrective (issued s0 s')) \<le> 1)
     \<and> \<not> (BasicLoadUp 0 \<in> set (issued s3 (Loop_arbitration env s3))
           \<and> BasicShed 0 \<in> set (issued s3 (Loop_arbitration env s3)))"
proof -
  obtain pre where pre: "commands s3 = commands s0 @ pre" "filter corrective pre = []"
    using Loop_schedule_commands [OF assms] by blast
  have agree: "(GetImportWatts s3 = 0 \<and> GetImportPower s3 = 0)
            \<or> (GetImportWatts s3 \<noteq> 0 \<and> GetImportPower s3 \<noteq> 0)
          \<longrightarrow> Loop env s0 = Inr s3 \<and> issued s3 (Loop_arbitration env s3) = []"
    using assms by (auto simp add: Loop_def Loop_arbitration_def issued_def)
  have loop: "Loop env s0 = Inr (Loop_arbitration env s3)"
    using assms by (simp add: Loop_def)
  have "length (filter corrective (issued s0 (Loop_arbitration env s3))) \<le> 1"
    using pre Loop_arbitration_cases [of env s3]
    by (auto simp add: issued_def ImportPower_def IdleLoss_def issue_def)
  moreover have "\<not> (BasicLoadUp 0 \<in> set (issued s3 (Loop_arbitration env s3))
           \<and> BasicShed 0 \<in> set (issued s3 (Loop_arbitration env s3)))"
    using Loop_arbitration_cases [of env s3]
    by (auto simp add: issued_def ImportPower_def IdleLoss_def issue_def)
  ultimately show ?thesis using agree loop by blast
qed

theorem arbitration_exclusive_witness:
  "Loop_schedule env0 ewh0 = Inr ewh0 \<and> GetImportWatts ewh0 = 0 \<and> GetImportPower ewh0 = 0
   \<and> Loop env0 ewh0 = Inr ewh0
   \<and> Loop_schedule env0 ewh_agreeing = Inr ewh_agreeing
   \<and> GetImportWatts ewh_agreeing = 500 \<and> GetImportPower ewh_agreeing = 500
   \<and> Loop env0 ewh_agreeing = Inr ewh_agreeing"
proof -
  have h1: "Loop_schedule env0 ewh0 = Inr ewh0" by (simp add: inputs tick)
  have h2: "Loop_schedule env0 ewh_agreeing = Inr ewh_agreeing" by (simp add: inputs tick)
  have z: "GetImportWatts ewh0 = 0" "GetImportPower ewh0 = 0"
    by (simp_all add: inputs getters)
  have a: "GetImportWatts ewh_agreeing = 500" "GetImportPower ewh_agreeing = 500"
    by (simp_all add: inputs getters)
  show ?thesis
    using h1 h2 z a arbitration_exclusive [OF h1] arbitration_exclusive [OF h2] by simp
qed

text \<open>
  C2, as stated, fails: the reading of code 0 is stored with \<open>SetImportPower\<close>, so it
  lands in the field \<open>GetImportPower\<close> reads, not in the one the arbitration tests as
  \<open>0 < GetImportWatts\<close>. With nothing wanted and nothing drawn, a refresh that reads
  code 0 at rate 500 leaves \<open>GetImportWatts\<close> at 0 and sets \<open>GetImportPower\<close> to
  500, and the arbitration then takes its second branch (shed), not the first (load-up),
  although the device reports \<open>NORMAL\<close>.
\<close>

theorem refresh_code0_not_setpoint:
  "GetCommodityData env_rate = [\<lparr>code = 0, rate = 500, cumulative = 0\<rparr>]
   \<and> GetImportWatts ewh0 = 0 \<and> GetImportPower ewh0 = 0
   \<and> GetImportWatts (QueryProperties env_rate ewh0) = 0
   \<and> GetImportPower (QueryProperties env_rate ewh0) = 500
   \<and> GetOpState env_rate = NORMAL
   \<and> Loop_arbitration env_rate (QueryProperties env_rate ewh0)
       = IdleLoss (QueryProperties env_rate ewh0)"
  by (simp add: inputs tick getters setters)

text \<open>
  C2, amended. For every commodity-reading sequence processed by a property refresh, a
  reading with code 0 sets \<open>import_power\<close> to its rate: the field behind
  \<open>GetImportPower\<close>, which the arbitration tests as \<open>= 0\<close> in its first branch and
  \<open>> 0\<close> in its second. After the refresh it holds the rate of the last reading of
  code 0, if there is one. The refresh never writes the field behind
  \<open>GetImportWatts\<close>, the side the arbitration tests as \<open>> 0\<close> in its first branch.
\<close>

theorem refresh_code0_writes_import_power:
  "GetImportWatts (QueryProperties env s) = GetImportWatts s
   \<and> GetImportPower (QueryProperties env s) =
       (case last_reading 0 (GetCommodityData env) of
          None \<Rightarrow> GetImportPower s | Some c \<Rightarrow> rate c)
   \<and> (code c = 0 \<longrightarrow> GetImportPower (fold_commodity c s) = rate c
         \<and> GetImportWatts (fold_commodity c s) = GetImportWatts s)"
  by (simp add: getters QueryProperties_untouched QueryProperties_def Let_def issue_def
        for_commodities_fields fold_commodity_def setters split: option.splits)

theorem refresh_code0_writes_import_power_witness:
  "code \<lparr>code = 0, rate = 500, cumulative = 0\<rparr> = 0
   \<and> GetImportPower (fold_commodity \<lparr>code = 0, rate = 500, cumulative = 0\<rparr> ewh0) = 500
   \<and> GetImportWatts (fold_commodity \<lparr>code = 0, rate = 500, cumulative = 0\<rparr> ewh0) = 0
   \<and> GetImportPower (QueryProperties env_rate ewh0) = 500
   \<and> GetImportWatts (QueryProperties env_rate ewh0) = 0"
proof -
  have w: "GetImportWatts ewh0 = 0" by (simp add: inputs getters)
  have l: "last_reading 0 (GetCommodityData env_rate)
      = Some \<lparr>code = 0, rate = 500, cumulative = 0\<rparr>"
    by (simp add: last_reading_def inputs)
  show ?thesis
    using w l refresh_code0_writes_import_power [of env_rate ewh0 "\<lparr>code = 0, rate = 500, cumulative = 0\<rparr>"]
    by simp
qed

lemma Loop_quiet:
  assumes "heartbeat s \<noteq> 0" and "tm_sec env \<noteq> 0 \<or> log_minute s = tm_min env"
  shows "\<exists>s'. Loop env s = Inr s' \<and> logs s' = logs s \<and> log_minute s' = log_minute s
     \<and> heartbeat s' = heartbeat s"
  using assms
  by (auto simp add: Loop_def Loop_schedule_def Let_def QueryProperties_members
        Loop_arbitration_members issue_def)

lemma Loop_logging:
  assumes "heartbeat s \<noteq> 0" and "tm_sec env = 0" and "log_minute s \<noteq> tm_min env"
  shows "\<exists>s' r. Loop env s = Inr s' \<and> logs s' = logs s @ [r] \<and> is_DER_Data r
     \<and> log_minute s' = tm_min env \<and> heartbeat s' = heartbeat s"
  using assms
  by (auto simp add: Loop_def Loop_schedule_def Let_def QueryProperties_members
        Loop_arbitration_members issue_def Log_def)

text \<open>
  C6. Five ticks sample the seconds 58, 59, 0, 0, 1 of one minute \<open>m\<close>, and
  \<open>log_minute_\<close> is not \<open>m\<close> at the start. All five ticks complete; the first two
  log nothing, the first tick at second 0 appends one telemetry record and sets
  \<open>log_minute_\<close> to \<open>m\<close>, the second tick at second 0 and the last tick log
  nothing: exactly one record is added. The ticks complete because \<open>heartbeat_\<close> is
  not 0.
\<close>

theorem log_cadence:
  assumes "heartbeat s0 \<noteq> 0" and "log_minute s0 \<noteq> m"
    and "tm_sec e1 = 58" "tm_sec e2 = 59" "tm_sec e3 = 0" "tm_sec e4 = 0" "tm_sec e5 = 1"
    and "tm_min e1 = m" "tm_min e2 = m" "tm_min e3 = m" "tm_min e4 = m" "tm_min e5 = m"
  shows "\<exists>s1 s2 s3 s4 s5 r.
       Loop e1 s0 = Inr s1 \<and> Loop e2 s1 = Inr s2 \<and> Loop e3 s2 = Inr s3
     \<and> Loop e4 s3 = Inr s4 \<and> Loop e5 s4 = Inr s5
     \<and> run [Call_Loop e1, Call_Loop e2, Call_Loop e3, Call_Loop e4, Call_Loop e5] s0 = Inr s5
     \<and> telemetry s1 = telemetry s0 \<and> telemetry s2 = telemetry s0
     \<and> is_DER_Data r \<and> logs s3 = logs s2 @ [r] \<and> telemetry s3 = telemetry s0 @ [r]
     \<and> log_minute s3 = m
     \<and> logs s4 = logs s3 \<and> telemetry s4 = telemetry s0 @ [r]
     \<and> telemetry s5 = telemetry s0 @ [r]
     \<and> length (telemetry s5) = length (telemetry s0) + 1"
proof -
  obtain s1 where s1: "Loop e1 s0 = Inr s1" "logs s1 = logs s0"
      "log_minute s1 = log_minute s0" "heartbeat s1 \<noteq> 0"
    using Loop_quiet [of s0 e1] assms by auto
  obtain s2 where s2: "Loop e2 s1 = Inr s2" "logs s2 = logs s1"
      "log_minute s2 = log_minute s1" "heartbeat s2 \<noteq> 0"
    using Loop_quiet [of s1 e2] assms s1 by auto
  obtain s3 r where s3: "Loop e3 s2 = Inr s3" "logs s3 = logs s2 @ [r]" "is_DER_Data r"
      "log_minute s3 = m" "heartbeat s3 \<noteq> 0"
    using Loop_logging [of s2 e3] assms s1 s2 by auto
  obtain s4 where s4: "Loop e4 s3 = Inr s4" "logs s4 = logs s3"
      "log_minute s4 = log_minute s3" "heartbeat s4 \<noteq> 0"
    using Loop_quiet [of s3 e4] assms s3 by auto
  obtain s5 where s5: "Loop e5 s4 = Inr s5" "logs s5 = logs s4"
    using Loop_quiet [of s4 e5] assms s4 by auto
  have run: "run [Call_Loop e1, Call_Loop e2, Call_Loop e3, Call_Loop e4, Call_Loop e5] s0
      = Inr s5"
    using s1 s2 s3 s4 s5 by (simp add: and_then_def)
  have t: "telemetry s1 = telemetry s0" "telemetry s2 = telemetry s0"
    "telemetry s3 = telemetry s0 @ [r]" "telemetry s4 = telemetry s0 @ [r]"
    "telemetry s5 = telemetry s0 @ [r]"
    using s1 s2 s3 s4 s5 by (simp_all add: telemetry_def)
  show ?thesis
    using s1(1) s2(1) s3(1-4) s4(1,2) s5(1) run t by auto
qed

theorem log_cadence_witness:
  "heartbeat ewh0 \<noteq> 0 \<and> log_minute ewh0 \<noteq> 30 \<and> telemetry ewh0 = []
   \<and> map tm_sec [env_at 58, env_at 59, env_at 0, env_at 0, env_at 1] = [58, 59, 0, 0, 1]
   \<and> map tm_min [env_at 58, env_at 59, env_at 0, env_at 0, env_at 1] = [30, 30, 30, 30, 30]
   \<and> (\<exists>s5. run [Call_Loop (env_at 58), Call_Loop (env_at 59), Call_Loop (env_at 0),
                 Call_Loop (env_at 0), Call_Loop (env_at 1)] ewh0 = Inr s5
          \<and> length (telemetry s5) = 1)"
proof -
  have h: "heartbeat ewh0 \<noteq> 0" "log_minute ewh0 \<noteq> 30" "telemetry ewh0 = []"
    by (simp_all add: inputs telemetry_def)
  have t: "tm_sec (env_at 58) = 58" "tm_sec (env_at 59) = 59" "tm_sec (env_at 0) = 0"
    "tm_sec (env_at 1) = 1"
    "tm_min (env_at 58) = 30" "tm_min (env_at 59) = 30" "tm_min (env_at 0) = 30"
    "tm_min (env_at 1) = 30"
    by (simp_all add: inputs)
  show ?thesis
    using h t log_cadence [OF h(1) h(2) t(1) t(2) t(3) t(3) t(4) t(5) t(6) t(7) t(7) t(8)]
    by auto
qed

subsection \<open>DR event handlers\<close>

lemmas handlers = SetCriticalPeak_def SetLoadUp_def SetGridEmergency_def EndCurtailment_def
  Logger_def cout_def issue_def Let_def

text \<open>
  C10. Each of \<open>SetCriticalPeak\<close>, \<open>SetLoadUp\<close> and \<open>SetGridEmergency\<close> changes,
  among the controller's members, the local operational state only (to 4, 3 and 5): the
  Property Store and \<open>log_minute_\<close> are as before, for every starting state. Each
  sends exactly one device command, of duration 0, and writes one line to the log.
\<close>

theorem dr_handlers_frame:
  "SetCriticalPeak s = s\<lparr>opstate := 4, commands := commands s @ [BasicCriticalPeakEvent 0],
       logs := logs s @ [Message ''INFO'' (log_path s) ''Critical peak event command received'']\<rparr>
   \<and> SetLoadUp s = s\<lparr>opstate := 3, commands := commands s @ [BasicLoadUp 0],
       logs := logs s @ [Message ''INFO'' (log_path s) ''Load up command received'']\<rparr>
   \<and> SetGridEmergency s = s\<lparr>opstate := 5, commands := commands s @ [BasicGridEmergency 0],
       logs := logs s @ [Message ''INFO'' (log_path s) ''Grid Emergency command received'']\<rparr>
   \<and> der (SetCriticalPeak s) = der s \<and> der (SetLoadUp s) = der s
   \<and> der (SetGridEmergency s) = der s
   \<and> log_minute (SetCriticalPeak s) = log_minute s \<and> log_minute (SetLoadUp s) = log_minute s
   \<and> log_minute (SetGridEmergency s) = log_minute s
   \<and> issued s (SetCriticalPeak s) = [BasicCriticalPeakEvent 0]
   \<and> issued s (SetLoadUp s) = [BasicLoadUp 0]
   \<and> issued s (SetGridEmergency s) = [BasicGridEmergency 0]"
  by (simp add: handlers issued_def getters)

lemma Loop_members:
  assumes "Loop env s = Inr s'"
  shows "heartbeat s \<noteq> 0" "heartbeat s' = heartbeat s" "opstate s' = opstate s"
    "export_energy (der s') = export_energy (der s)"
  using assms Loop_schedule_members [of env s]
  by (auto simp add: Loop_def Loop_arbitration_members split: sum.splits)

lemma do_call_export_energy:
  "do_call c s = Inr s' \<Longrightarrow> GetExportEnergy s = 0 \<Longrightarrow> GetExportEnergy s' = 0"
  by (cases c)
     (auto simp add: getters handlers QueryProperties_untouched ImportPower_def IdleLoss_def
        ExportPower_def setters Log_def Loop_members(4))

lemma run_export_energy:
  "run calls s = Inr s' \<Longrightarrow> GetExportEnergy s = 0 \<Longrightarrow> GetExportEnergy s' = 0"
proof (induction calls arbitrary: s)
  case Nil
  then show ?case by simp
next
  case (Cons c calls)
  then show ?case
    by (auto simp add: and_then_def split: sum.splits dest: do_call_export_energy)
qed

lemma do_call_opstate:
  "do_call c s = Inr s' \<Longrightarrow> \<not> writes_opstate c \<Longrightarrow> opstate s' = opstate s"
  by (cases c)
     (auto simp add: handlers QueryProperties_members ImportPower_def IdleLoss_def
        ExportPower_def setters Log_def Loop_members(3))

lemma run_opstate:
  "run calls s = Inr s' \<Longrightarrow> \<forall>c \<in> set calls. \<not> writes_opstate c \<Longrightarrow> opstate s' = opstate s"
proof (induction calls arbitrary: s)
  case Nil
  then show ?case by simp
next
  case (Cons c calls)
  then show ?case
    by (auto simp add: and_then_def split: sum.splits dest: do_call_opstate)
qed

lemma ElectricWaterHeater_Inr:
  assumes "ElectricWaterHeater configs env s0 = Inr s'"
  shows "\<exists>channel beat inc ramp r1 r2 r3 r4 s15.
      stoul (at configs ''mcp_channel'') = Inr channel
    \<and> stoul (at configs ''ucm_heartbeat'') = Inr beat
    \<and> stoul (at configs ''log_inc'') = Inr inc
    \<and> stoul (at configs ''EWH_rated_import_ramp'') = Inr ramp
    \<and> sp_open env
    \<and> query_reply env QuerySuportDataLinkMessages = Some r1
    \<and> query_reply env QueryMaxPayload = Some r2
    \<and> query_reply env QuerySuportIntermediateMessages = Some r3
    \<and> query_reply env IntermediateGetDeviceInformation = Some r4
    \<and> s' = QueryProperties env s15
    \<and> der s15 = (der s0)\<lparr>rated_import_power := 4500, export_energy := 0,
                 import_ramp := of_nat ramp, idle_losses := 100\<rparr>
    \<and> log_path s15 = at configs ''log_path''
    \<and> log_inc s15 = of_nat inc
    \<and> sp s15 = at configs ''serial_port''
    \<and> current_transducer_1 s15 = of_nat channel
    \<and> heartbeat s15 = of_nat beat
    \<and> opstate s15 = opstate s0
    \<and> log_minute s15 = log_minute s0
    \<and> last_utc s15 = last_utc s0
    \<and> response_codes s15 = r4
    \<and> commands s15 = commands s0 @ [Start, BasicOutsideCommConnectionStatus Found,
                 QuerySuportDataLinkMessages, QueryMaxPayload,
                 QuerySuportIntermediateMessages, IntermediateGetDeviceInformation]
    \<and> logs s15 = logs s0 @ [Message ''INFO'' (at configs ''log_path'') ''startup complete'']
    \<and> console s15 = console s0 @ [''Log Path: '' @ at configs ''log_path'']"
proof -
  obtain channel where c: "stoul (at configs ''mcp_channel'') = Inr channel"
    using assms by (auto simp add: ElectricWaterHeater_def and_then_def split: sum.splits)
  obtain beat where b: "stoul (at configs ''ucm_heartbeat'') = Inr beat"
    using assms c by (auto simp add: ElectricWaterHeater_def and_then_def split: sum.splits)
  have o: "sp_open env"
    using assms c b
    by (auto simp add: ElectricWaterHeater_def and_then_def Let_def split: if_splits)
  obtain r1 r2 r3 r4 where r:
    "query_reply env QuerySuportDataLinkMessages = Some r1"
    "query_reply env QueryMaxPayload = Some r2"
    "query_reply env QuerySuportIntermediateMessages = Some r3"
    "query_reply env IntermediateGetDeviceInformation = Some r4"
    using assms c b o
    by (auto simp add: ElectricWaterHeater_def and_then_def await_def Let_def
        split: option.splits)
  obtain inc where i: "stoul (at configs ''log_inc'') = Inr inc"
    using assms c b o r
    by (auto simp add: ElectricWaterHeater_def and_then_def await_def Let_def
        split: sum.splits)
  obtain ramp where p: "stoul (at configs ''EWH_rated_import_ramp'') = Inr ramp"
    using assms c b o r i
    by (auto simp add: ElectricWaterHeater_def and_then_def await_def Let_def
        split: sum.splits)
  show ?thesis
    using assms c b o r i p
    by (fastforce simp add: ElectricWaterHeater_def and_then_def await_def Let_def issue_def
        Logger_def cout_def setters getters SetLogPath_def SetLogIncrement_def)
qed

text \<open>
  C8, as stated, fails in its last part: no load or shed decision of the arbitration makes
  the local operational state \<open>NORMAL\<close>. After \<open>SetCriticalPeak\<close>,
  \<open>EndCurtailment\<close> and a tick whose arbitration sheds, the local state is still 4;
  after \<open>SetLoadUp\<close>, \<open>EndCurtailment\<close> and a tick whose arbitration loads up, it
  is still 3. Whatever code \<open>NORMAL\<close> has, one of the two runs did not reach it.
\<close>

theorem opstate_not_reset_by_arbitration:
  "observe opstate
     (run [Call_SetCriticalPeak, Call_EndCurtailment, Call_Loop env0] ewh_drawing) = Inr 4
   \<and> observe commands
     (run [Call_SetCriticalPeak, Call_EndCurtailment, Call_Loop env0] ewh_drawing)
       = Inr [BasicCriticalPeakEvent 0, BasicEndShed 0, BasicShed 0]
   \<and> observe opstate
     (run [Call_SetLoadUp, Call_EndCurtailment, Call_Loop env0] ewh_wanting) = Inr 3
   \<and> observe commands
     (run [Call_SetLoadUp, Call_EndCurtailment, Call_Loop env0] ewh_wanting)
       = Inr [BasicLoadUp 0, BasicEndShed 0, BasicLoadUp 0]"
  by (simp add: observe_def and_then_def handlers inputs tick getters)

text \<open>
  C8, amended. \<open>EndCurtailment\<close> sends one end-shed command of duration 0 and leaves
  the local operational state (and every other member) as it was. The reconciliation loop
  never writes the local operational state either, whatever its arbitration decides:
  after \<open>EndCurtailment\<close> the state keeps its value through every sequence of calls
  that has none of \<open>SetCriticalPeak\<close>, \<open>SetLoadUp\<close>, \<open>SetGridEmergency\<close>.
\<close>

theorem EndCurtailment_keeps_opstate:
  "EndCurtailment s = s\<lparr>commands := commands s @ [BasicEndShed 0],
       console := console s @ [''Debugging: Ending previous curtailment for new command.'']\<rparr>
   \<and> issued s (EndCurtailment s) = [BasicEndShed 0]
   \<and> opstate (EndCurtailment s) = opstate s
   \<and> opstate (Loop_arbitration env s) = opstate s
   \<and> (Loop env s = Inr s' \<longrightarrow> opstate s' = opstate s)
   \<and> (run calls (EndCurtailment s) = Inr s'' \<and> (\<forall>c \<in> set calls. \<not> writes_opstate c)
        \<longrightarrow> opstate s'' = opstate s)"
proof -
  have a: "EndCurtailment s = s\<lparr>commands := commands s @ [BasicEndShed 0],
       console := console s @ [''Debugging: Ending previous curtailment for new command.'']\<rparr>"
    by (simp add: handlers)
  have b: "issued s (EndCurtailment s) = [BasicEndShed 0]"
    by (simp add: handlers issued_def)
  have c: "opstate (EndCurtailment s) = opstate s"
    by (simp add: handlers)
  have d: "opstate s'' = opstate s"
    if "run calls (EndCurtailment s) = Inr s''" "\<forall>c \<in> set calls. \<not> writes_opstate c"
    using run_opstate [OF that] c by simp
  show ?thesis
    using a b c d Loop_members(3) [of env s s'] Loop_arbitration_members(3) [of env s]
    by blast
qed

theorem EndCurtailment_keeps_opstate_witness:
  "\<exists>s''. run [Call_Loop (env_at 0), Call_Loop (env_at 1)]
          (EndCurtailment (SetCriticalPeak ewh_drawing)) = Inr s''
     \<and> opstate s'' = 4 \<and> opstate (SetCriticalPeak ewh_drawing) = 4
     \<and> issued (SetCriticalPeak ewh_drawing) (EndCurtailment (SetCriticalPeak ewh_drawing))
         = [BasicEndShed 0]"
proof -
  let ?s = "SetCriticalPeak ewh_drawing"
  have hb: "heartbeat (EndCurtailment ?s) \<noteq> 0"
    by (simp add: handlers inputs)
  obtain t where t: "Loop (env_at 0) (EndCurtailment ?s) = Inr t"
    using Loop_schedule_total [OF hb, of "env_at 0"] by (auto simp add: Loop_def)
  have "heartbeat t \<noteq> 0" using Loop_members(2) [OF t] hb by simp
  then obtain u where u: "Loop (env_at 1) t = Inr u"
    using Loop_schedule_total [of t "env_at 1"] by (auto simp add: Loop_def)
  have r: "run [Call_Loop (env_at 0), Call_Loop (env_at 1)] (EndCurtailment ?s) = Inr u"
    using t u by (simp add: and_then_def)
  have n: "\<forall>c \<in> set [Call_Loop (env_at 0), Call_Loop (env_at 1)]. \<not> writes_opstate c"
    by simp
  have o: "opstate ?s = 4" by (simp add: handlers)
  show ?thesis
    using r n o EndCurtailment_keeps_opstate [of ?s "env_at 0" t "[Call_Loop (env_at 0), Call_Loop (env_at 1)]" u]
    by auto
qed

subsection \<open>Construction\<close>

lemmas construct = ElectricWaterHeater_def and_then_def await_def stoul_def isspace_def
  isdigit_def ULONG_MAX_def at_def configs0_def entries0_def configs1_def entries1_def
  SetLogPath_def SetLogIncrement_def Logger_def cout_def

lemma construction0:
  "\<exists>s1. ElectricWaterHeater configs0 env0 ewh0 = Inr s1"
  by (simp add: construct inputs tick setters getters)

text \<open>
  C9, as stated, fails: rated import power and idle losses do not come from the
  configuration. Two configurations that differ in every entry, neither with an entry
  4500 or 100, both give rated import power 4500 and idle losses 100; only the import
  ramp follows the configuration (7 and 9).
\<close>

theorem static_properties_not_all_configured:
  "observe static_properties (ElectricWaterHeater configs0 env0 ewh0) = Inr (4500, 100, 7)
   \<and> observe static_properties (ElectricWaterHeater configs1 env0 ewh0) = Inr (4500, 100, 9)
   \<and> ''4500'' \<notin> snd ` set entries0 \<and> ''100'' \<notin> snd ` set entries0
   \<and> ''4500'' \<notin> snd ` set entries1 \<and> ''100'' \<notin> snd ` set entries1"
  by (simp add: construct inputs tick setters getters observe_def static_properties_def)

text \<open>
  C9, amended. When construction returns, the four handshake queries have completed in
  order, after \<open>start\<close> and the connection status; then rated import power was set to
  the constant 4500 and idle losses to the constant 100, the import ramp to the number
  read from the configuration entry \<open>EWH_rated_import_ramp\<close>; and one property
  refresh ran last, which leaves these three values as they are.
\<close>

theorem construction_static_properties:
  assumes "ElectricWaterHeater configs env s0 = Inr s'"
  shows "\<exists>ramp s15.
       stoul (at configs ''EWH_rated_import_ramp'') = Inr ramp
     \<and> query_reply env QuerySuportDataLinkMessages \<noteq> None
     \<and> query_reply env QueryMaxPayload \<noteq> None
     \<and> query_reply env QuerySuportIntermediateMessages \<noteq> None
     \<and> query_reply env IntermediateGetDeviceInformation \<noteq> None
     \<and> issued s0 s15 = [Start, BasicOutsideCommConnectionStatus Found,
          QuerySuportDataLinkMessages, QueryMaxPayload,
          QuerySuportIntermediateMessages, IntermediateGetDeviceInformation]
     \<and> static_properties s15 = (4500, 100, of_nat ramp)
     \<and> s' = QueryProperties env s15
     \<and> issued s15 s' = [IntermediateGetCommodity, BasicQueryOperationalState]
     \<and> static_properties s' = (4500, 100, of_nat ramp)"
proof -
  from ElectricWaterHeater_Inr [OF assms]
  obtain ramp r1 r2 r3 r4 s15 where
    ramp: "stoul (at configs ''EWH_rated_import_ramp'') = Inr ramp"
    and r: "query_reply env QuerySuportDataLinkMessages = Some r1"
      "query_reply env QueryMaxPayload = Some r2"
      "query_reply env QuerySuportIntermediateMessages = Some r3"
      "query_reply env IntermediateGetDeviceInformation = Some r4"
    and s': "s' = QueryProperties env s15"
    and d: "der s15 = (der s0)\<lparr>rated_import_power := 4500, export_energy := 0,
                 import_ramp := of_nat ramp, idle_losses := 100\<rparr>"
    and c: "commands s15 = commands s0 @ [Start, BasicOutsideCommConnectionStatus Found,
                 QuerySuportDataLinkMessages, QueryMaxPayload,
                 QuerySuportIntermediateMessages, IntermediateGetDeviceInformation]"
    by blast
  have "static_properties s15 = (4500, 100, of_nat ramp)"
    using d by (simp add: static_properties_def)
  moreover have "static_properties s' = (4500, 100, of_nat ramp)"
    using d s' by (simp add: static_properties_def QueryProperties_untouched)
  moreover have "issued s15 s' = [IntermediateGetCommodity, BasicQueryOperationalState]"
    using s' by (simp add: issued_def QueryProperties_members)
  moreover have "issued s0 s15 = [Start, BasicOutsideCommConnectionStatus Found,
          QuerySuportDataLinkMessages, QueryMaxPayload,
          QuerySuportIntermediateMessages, IntermediateGetDeviceInformation]"
    using c by (simp add: issued_def)
  ultimately show ?thesis using ramp r s' by auto
qed

theorem construction_static_properties_witness:
  "\<exists>s'. ElectricWaterHeater configs0 env0 ewh0 = Inr s'
     \<and> stoul (at configs0 ''EWH_rated_import_ramp'') = Inr 7
     \<and> static_properties s' = (4500, 100, 7)"
proof -
  obtain s' where h: "ElectricWaterHeater configs0 env0 ewh0 = Inr s'"
    using construction0 by blast
  have p: "stoul (at configs0 ''EWH_rated_import_ramp'') = Inr 7"
    by (simp add: construct)
  show ?thesis using h p construction_static_properties [OF h] by auto
qed

text \<open>
  C7. For every starting state, \<open>export_energy\<close> is 0 after \<open>ExportPower\<close>. It is
  0 when construction returns, and stays 0 through every sequence of calls on the
  controller, ticks included.
\<close>

theorem export_energy_forced_zero:
  "GetExportEnergy (ExportPower s) = 0
   \<and> (ElectricWaterHeater configs env s0 = Inr s1 \<longrightarrow> GetExportEnergy s1 = 0)
   \<and> (ElectricWaterHeater configs env s0 = Inr s1 \<and> run calls s1 = Inr s2
        \<longrightarrow> GetExportEnergy s2 = 0)
   \<and> (GetExportEnergy s = 0 \<and> run calls s = Inr s2 \<longrightarrow> GetExportEnergy s2 = 0)"
proof -
  have a: "GetExportEnergy (ExportPower s) = 0"
    by (simp add: ExportPower_def setters getters)
  have b: "GetExportEnergy s1 = 0" if "ElectricWaterHeater configs env s0 = Inr s1"
    using ElectricWaterHeater_Inr [OF that]
    by (auto simp add: getters QueryProperties_untouched)
  show ?thesis using a b run_export_energy by blast
qed

theorem export_energy_forced_zero_witness:
  "GetExportEnergy ewh0 = 9 \<and> GetExportEnergy (ExportPower ewh0) = 0
   \<and> (\<exists>s1 s2. ElectricWaterHeater configs0 env0 ewh0 = Inr s1
        \<and> run [Call_SetLoadUp, Call_Loop (env_at 0), Call_ExportPower, Call_EndCurtailment] s1
            = Inr s2
        \<and> GetExportEnergy s1 = 0 \<and> GetExportEnergy s2 = 0)"
proof -
  obtain s1 where h: "ElectricWaterHeater configs0 env0 ewh0 = Inr s1"
    using construction0 by blast
  have hb: "heartbeat s1 = 1"
    using ElectricWaterHeater_Inr [OF h] by (auto simp add: construct QueryProperties_members)
  obtain t where t: "Loop (env_at 0) (SetLoadUp s1) = Inr t"
    using Loop_schedule_total [of "SetLoadUp s1" "env_at 0"] hb
    by (auto simp add: Loop_def handlers)
  have r: "run [Call_SetLoadUp, Call_Loop (env_at 0), Call_ExportPower, Call_EndCurtailment] s1
      = Inr (EndCurtailment (ExportPower t))"
    using t by (simp add: and_then_def)
  have "GetExportEnergy ewh0 = 9" by (simp add: inputs getters)
  then show ?thesis
    using h r export_energy_forced_zero [of ewh0 configs0 env0 ewh0 s1
        "[Call_SetLoadUp, Call_Loop (env_at 0), Call_ExportPower, Call_EndCurtailment]"
        "EndCurtailment (ExportPower t)"]
    by auto
qed

end
